theory Spec2Isabelle
  imports Main "HOL-Library.Word"
begin

section \<open>SystemDictionaryShared: the classes of the AppCDS archive\<close>

text \<open>
  A shallow embedding of \<^verbatim>\<open>src/hotspot/share/classfile/systemDictionaryShared.hpp\<close>.
  The header defines a handful of inline members in full (\<^verbatim>\<open>is_builtin\<close>,
  \<^verbatim>\<open>atomic_set_array_index\<close> and its three callers, \<^verbatim>\<open>get_package_entry\<close>,
  the \<^verbatim>\<open>NoClassLoadingMark\<close> scope object) and declares the rest; the inline members
  are translated statement by statement, and whatever they call from other files is
  either a parameter or a definition marked as modelled.
\<close>

subsection \<open>Category of an archived class\<close>

text \<open>
  \<^verbatim>\<open>#define UNREGISTERED_INDEX -9999\<close>. A C++ \<^verbatim>\<open>int\<close> is a 32-bit word read in
  two's complement (\<open>sint\<close>).
\<close>

type_synonym cint = "32 word"

definition UNREGISTERED_INDEX :: cint where
  "UNREGISTERED_INDEX = - 9999"

text \<open>
  Of an \<^verbatim>\<open>InstanceKlass\<close> the header reads one thing only, the value of
  \<^verbatim>\<open>k->shared_classpath_index()\<close>; the remaining fields stay abstract in \<open>'a\<close>.
\<close>

record 'a InstanceKlass =
  shared_classpath_index :: cint
  klass_rest :: 'a

text \<open>
  \<^verbatim>\<open>static bool is_builtin(InstanceKlass* k) {
    return (k->shared_classpath_index() != UNREGISTERED_INDEX);
  }\<close>
\<close>

definition is_builtin :: "'a InstanceKlass \<Rightarrow> bool" where
  "is_builtin k = (shared_classpath_index k \<noteq> UNREGISTERED_INDEX)"

subsection \<open>The no-class-loading scope object\<close>

text \<open>
  \<^verbatim>\<open>static bool _no_class_loading_should_happen\<close> is one static flag of the class, so
  the state a mark acts on is that single boolean. A failed \<^verbatim>\<open>assert\<close> stops the VM;
  it is the error value of the model.
\<close>

datatype vm_error = AssertionFailed string | IndexOutOfBounds

text \<open>
  \<^verbatim>\<open>NoClassLoadingMark() {
    assert(!_no_class_loading_should_happen, "must not be nested");
    _no_class_loading_should_happen = true;
  }\<close>
\<close>

definition NoClassLoadingMark_enter :: "bool \<Rightarrow> vm_error + bool" where
  "NoClassLoadingMark_enter flag =
     (if flag then Inl (AssertionFailed ''must not be nested'') else Inr True)"

text \<open>
  \<^verbatim>\<open>~NoClassLoadingMark() { _no_class_loading_should_happen = false; }\<close>
\<close>

definition NoClassLoadingMark_leave :: "bool \<Rightarrow> bool" where
  "NoClassLoadingMark_leave flag = False"

text \<open>
  \<^verbatim>\<open>static bool no_class_loading_should_happen() {
    return _no_class_loading_should_happen;
  }\<close>
\<close>

definition no_class_loading_should_happen :: "bool \<Rightarrow> bool" where
  "no_class_loading_should_happen flag = flag"

text \<open>
  A run of the program, as far as the flag is concerned, is the sequence of mark
  constructions and destructions it performs; the first failed assertion ends it.
\<close>

datatype mark_event = Construct | Destroy

fun run_marks :: "bool \<Rightarrow> mark_event list \<Rightarrow> vm_error + bool" where
  "run_marks flag [] = Inr flag"
| "run_marks flag (Construct # es) =
     (case NoClassLoadingMark_enter flag of
        Inl e \<Rightarrow> Inl e
      | Inr flag' \<Rightarrow> run_marks flag' es)"
| "run_marks flag (Destroy # es) = run_marks (NoClassLoadingMark_leave flag) es"

subsection \<open>Publishing security metadata\<close>

text \<open>
  An \<^verbatim>\<open>oop\<close> is a reference to a heap object or \<^verbatim>\<open>NULL\<close>: \<open>'o option\<close>, with
  \<open>None\<close> for \<^verbatim>\<open>NULL\<close>. An \<^verbatim>\<open>objArrayOop\<close> is an array of such references.
\<close>

type_synonym 'o oop = "'o option"
type_synonym 'o objArrayOop = "'o oop list"

text \<open>
  Modelled from the spec: \<^verbatim>\<open>objArrayOopDesc::atomic_compare_exchange_oop(index,
  exchange_value, compare_value)\<close>, a member of \<^verbatim>\<open>objArrayOop\<close> that is defined outside
  this header. The spec describes it as "an atomic compare-and-set on an optional slot,
  where losing writers discard their computed value": in one indivisible step the slot
  takes \<open>exchange_value\<close> if it holds \<open>compare_value\<close> and keeps its content
  otherwise, and the old content is returned. An index outside the array names no slot;
  the access is an error of the model.
\<close>

definition atomic_compare_exchange_oop ::
  "'o objArrayOop \<Rightarrow> cint \<Rightarrow> 'o oop \<Rightarrow> 'o oop \<Rightarrow> vm_error + ('o oop \<times> 'o objArrayOop)" where
  "atomic_compare_exchange_oop array index exchange_value compare_value =
     (if 0 \<le> sint index \<and> sint index < int (length array) then
        (let old = array ! nat (sint index) in
         Inr (old, if old = compare_value
                   then array[nat (sint index) := exchange_value] else array))
      else Inl IndexOutOfBounds)"

text \<open>
  \<^verbatim>\<open>static void atomic_set_array_index(objArrayOop array, int index, oop o) {
    // Benign race condition:  array.obj_at(index) may already be filled in.
    // The important thing here is that all threads pick up the same result.
    // It doesn't matter which racing thread wins, as long as only one
    // result is used by all threads, and all future queries.
    array->atomic_compare_exchange_oop(index, o, NULL);
  }\<close>
  The value the exchange returns is dropped, as in the source.
\<close>

definition atomic_set_array_index ::
  "'o objArrayOop \<Rightarrow> cint \<Rightarrow> 'o oop \<Rightarrow> vm_error + 'o objArrayOop" where
  "atomic_set_array_index array index obj =
     (case atomic_compare_exchange_oop array index obj None of
        Inl e \<Rightarrow> Inl e
      | Inr (old, array') \<Rightarrow> Inr array')"

text \<open>
  The three static arrays \<^verbatim>\<open>_shared_protection_domains\<close>, \<^verbatim>\<open>_shared_jar_urls\<close> and
  \<^verbatim>\<open>_shared_jar_manifests\<close>.
\<close>

record 'o shared_arrays =
  shared_protection_domains :: "'o objArrayOop"
  shared_jar_urls :: "'o objArrayOop"
  shared_jar_manifests :: "'o objArrayOop"

text \<open>
  \<^verbatim>\<open>static void atomic_set_shared_protection_domain(int index, oop pd) {
    atomic_set_array_index(_shared_protection_domains, index, pd);
  }\<close>
\<close>

definition atomic_set_shared_protection_domain ::
  "'o shared_arrays \<Rightarrow> cint \<Rightarrow> 'o oop \<Rightarrow> vm_error + 'o shared_arrays" where
  "atomic_set_shared_protection_domain s index pd =
     (case atomic_set_array_index (shared_protection_domains s) index pd of
        Inl e \<Rightarrow> Inl e
      | Inr array' \<Rightarrow> Inr (s\<lparr>shared_protection_domains := array'\<rparr>))"

text \<open>
  \<^verbatim>\<open>static void atomic_set_shared_jar_url(int index, oop url) {
    atomic_set_array_index(_shared_jar_urls, index, url);
  }\<close>
\<close>

definition atomic_set_shared_jar_url ::
  "'o shared_arrays \<Rightarrow> cint \<Rightarrow> 'o oop \<Rightarrow> vm_error + 'o shared_arrays" where
  "atomic_set_shared_jar_url s index url =
     (case atomic_set_array_index (shared_jar_urls s) index url of
        Inl e \<Rightarrow> Inl e
      | Inr array' \<Rightarrow> Inr (s\<lparr>shared_jar_urls := array'\<rparr>))"

text \<open>
  \<^verbatim>\<open>static void atomic_set_shared_jar_manifest(int index, oop man) {
    atomic_set_array_index(_shared_jar_manifests, index, man);
  }\<close>
\<close>

definition atomic_set_shared_jar_manifest ::
  "'o shared_arrays \<Rightarrow> cint \<Rightarrow> 'o oop \<Rightarrow> vm_error + 'o shared_arrays" where
  "atomic_set_shared_jar_manifest s index man =
     (case atomic_set_array_index (shared_jar_manifests s) index man of
        Inl e \<Rightarrow> Inl e
      | Inr array' \<Rightarrow> Inr (s\<lparr>shared_jar_manifests := array'\<rparr>))"

text \<open>
  One publication is a call of one of the three setters. Racing threads each perform
  such calls; since every call is one indivisible exchange, what the arrays go through
  is some sequence of publications, in the order the exchanges took effect.
\<close>

datatype metadata_kind = ProtectionDomain | JarUrl | JarManifest

type_synonym 'o publication = "metadata_kind \<times> cint \<times> 'o oop"

fun publish :: "'o shared_arrays \<Rightarrow> 'o publication \<Rightarrow> vm_error + 'o shared_arrays" where
  "publish s (ProtectionDomain, index, obj) = atomic_set_shared_protection_domain s index obj"
| "publish s (JarUrl, index, obj) = atomic_set_shared_jar_url s index obj"
| "publish s (JarManifest, index, obj) = atomic_set_shared_jar_manifest s index obj"

fun run_publications ::
  "'o shared_arrays \<Rightarrow> 'o publication list \<Rightarrow> vm_error + 'o shared_arrays" where
  "run_publications s [] = Inr s"
| "run_publications s (p # ps) =
     (case publish s p of Inl e \<Rightarrow> Inl e | Inr s' \<Rightarrow> run_publications s' ps)"

fun array_of :: "metadata_kind \<Rightarrow> 'o shared_arrays \<Rightarrow> 'o objArrayOop" where
  "array_of ProtectionDomain s = shared_protection_domains s"
| "array_of JarUrl s = shared_jar_urls s"
| "array_of JarManifest s = shared_jar_manifests s"

text \<open>
  A read of a slot (\<^verbatim>\<open>shared_protection_domain(index)\<close> and its two siblings are
  declared here and return the array element).
\<close>

definition slot :: "metadata_kind \<Rightarrow> cint \<Rightarrow> 'o shared_arrays \<Rightarrow> 'o oop" where
  "slot kind index s = array_of kind s ! nat (sint index)"

definition in_bounds :: "'o shared_arrays \<Rightarrow> 'o publication \<Rightarrow> bool" where
  "in_bounds s p =
     (case p of (kind, index, obj) \<Rightarrow>
        0 \<le> sint index \<and> sint index < int (length (array_of kind s)))"

subsection \<open>Package lookup\<close>

text \<open>
  A \<^verbatim>\<open>PackageEntryTable\<close> holds the package entries of one loader, each under the
  symbol of its package: the sequence of its \<open>(symbol, entry)\<close> pairs.
\<close>

type_synonym ('s, 'e) PackageEntryTable = "('s \<times> 'e) list"

fun table_entry :: "('s, 'e) PackageEntryTable \<Rightarrow> 's \<Rightarrow> 'e option" where
  "table_entry [] pkg = None"
| "table_entry ((name, entry) # rest) pkg =
     (if name = pkg then Some entry else table_entry rest pkg)"

text \<open>
  Modelled from the spec: \<^verbatim>\<open>PackageEntryTable::lookup_only\<close>, declared in
  \<^verbatim>\<open>classfile/packageEntry.hpp\<close>, not here. It is the spec's
  \<^verbatim>\<open>package_lookup(name, loader_context) -> Option<PackageEntry>\<close>, "the single lookup
  call the core needs": it returns the table's entry for the package (\<open>None\<close>, that
  is \<^verbatim>\<open>NULL\<close>, when the table has none) and, a lookup only, hands the table back as it
  found it. The table after the call is part of the result, so that what the call does
  to the table is visible in the caller.
\<close>

definition lookup_only ::
  "('s, 'e) PackageEntryTable \<Rightarrow> 's \<Rightarrow> 'e option \<times> ('s, 'e) PackageEntryTable" where
  "lookup_only table pkg = (table_entry table pkg, table)"

text \<open>
  A \<^verbatim>\<open>ClassLoaderData*\<close> is a reference \<open>'l\<close> to a loader's data, or \<^verbatim>\<open>NULL\<close>
  (\<open>None\<close>). \<^verbatim>\<open>loader_data->packages()\<close> is a \<^verbatim>\<open>PackageEntryTable*\<close>: the table
  that loader owns, or \<^verbatim>\<open>NULL\<close> (\<open>None\<close>) for a loader that has none. The state the
  function can touch is the assignment \<open>packages\<close> of these tables to the loaders.

  \<^verbatim>\<open>static PackageEntry* get_package_entry(Symbol* pkg, ClassLoaderData *loader_data) {
    if (loader_data != NULL) {
      PackageEntryTable* pkgEntryTable = loader_data->packages();
      return pkgEntryTable->lookup_only(pkg);
    }
    return NULL;
  }\<close>

  Only \<^verbatim>\<open>loader_data\<close> is tested against \<^verbatim>\<open>NULL\<close>; \<^verbatim>\<open>pkgEntryTable\<close> is dereferenced
  as it comes, and a \<^verbatim>\<open>NULL\<close> table is the error value of the model. The table the
  call of \<^verbatim>\<open>lookup_only\<close> leaves behind is stored back for that loader.
\<close>

datatype access_error = NullPointerDereference

definition get_package_entry ::
  "('l \<Rightarrow> ('s, 'e) PackageEntryTable option) \<Rightarrow> 's \<Rightarrow> 'l option
     \<Rightarrow> access_error + ('e option \<times> ('l \<Rightarrow> ('s, 'e) PackageEntryTable option))" where
  "get_package_entry packages pkg loader_data =
     (case loader_data of
        Some ld \<Rightarrow>
          (case packages ld of
             None \<Rightarrow> Inl NullPointerDereference
           | Some pkgEntryTable \<Rightarrow>
               (let (entry, table') = lookup_only pkgEntryTable pkg
                in Inr (entry, packages(ld := Some table'))))
      | None \<Rightarrow> Inr (None, packages))"

subsection \<open>Recording verification constraints\<close>

text \<open>
  \<^verbatim>\<open>static bool add_verification_constraint(InstanceKlass* k, Symbol* name,
                  Symbol* from_name, bool from_field_is_protected,
                  bool from_is_array, bool from_is_object) NOT_CDS_RETURN_(false);\<close>

  Modelled from the spec: the macro \<^verbatim>\<open>NOT_CDS_RETURN_\<close>, which is defined outside this
  header. Where class data sharing is compiled out, the macro gives the declaration the
  body \<^verbatim>\<open>{ return false; }\<close> ("fails (returns false, no-op) if constraint tracking is
  disabled for this build configuration"); where it is compiled in, the declaration
  stands alone and the function is defined out of line. \<open>INCLUDE_CDS\<close> is the build
  configuration and \<open>cds_definition\<close> the out-of-line definition, acting on the
  recorded state \<open>'st\<close>.
\<close>

definition add_verification_constraint ::
  "bool \<Rightarrow> ('st \<Rightarrow> 'k \<Rightarrow> 'sym \<Rightarrow> 'sym \<Rightarrow> bool \<Rightarrow> bool \<Rightarrow> bool \<Rightarrow> bool \<times> 'st)
     \<Rightarrow> 'st \<Rightarrow> 'k \<Rightarrow> 'sym \<Rightarrow> 'sym \<Rightarrow> bool \<Rightarrow> bool \<Rightarrow> bool \<Rightarrow> bool \<times> 'st" where
  "add_verification_constraint INCLUDE_CDS cds_definition st k name from_name
       from_field_is_protected from_is_array from_is_object =
     (if INCLUDE_CDS
      then cds_definition st k name from_name from_field_is_protected from_is_array from_is_object
      else (False, st))"

subsection \<open>Runtime lookup of archived classes\<close>

text \<open>
  The header declares the lookup functions (\<^verbatim>\<open>find_builtin_class\<close>,
  \<^verbatim>\<open>lookup_from_stream\<close>, \<^verbatim>\<open>is_shared_class_visible_for_classloader\<close>,
  \<^verbatim>\<open>find_or_load_shared_class\<close>) and defines none of them. What follows is modelled on the header's own description, rule [4] of
  its opening comment, and on the specification of the registry.
\<close>

datatype StorageCategory = BuiltinCategory | UnregisteredCategory

text \<open>
  A verification constraint as \<^verbatim>\<open>add_verification_constraint\<close> receives it: the two
  names and the three flags; the subject is the class the constraint is recorded for.
\<close>

record VerificationConstraint =
  vc_name :: string
  vc_from_name :: string
  vc_from_field_is_protected :: bool
  vc_from_is_array :: bool
  vc_from_is_object :: bool

text \<open>
  Modelled from the spec: the archived class record (\<^verbatim>\<open>RunTimeSharedClassInfo\<close> is
  only forward-declared here). "Qualified name, storage category, optional fingerprint
  (length+checksum, UnregisteredCategory only), supertype and declared-interface
  identities (resolved by archive-local integer ids, not pointers), origin descriptor
  (index into an origin table), exclusion reason (absent if included), set of recorded
  verification constraints."
\<close>

record ArchivedClassRecord =
  rec_name :: string
  rec_category :: StorageCategory
  rec_fingerprint :: "(cint \<times> cint) option"
  rec_supertypes :: "nat list"
  rec_origin :: nat
  rec_exclusion :: "string option"
  rec_constraints :: "VerificationConstraint list"

text \<open>
  Modelled from the spec: the match of one stored record against a query of the
  unregistered dictionary. "A record matches only if name AND length AND checksum all
  match"; the header: "an entry that matches the (name, clsfile_len, clsfile_crc32)".
\<close>

definition matches_unregistered :: "ArchivedClassRecord \<Rightarrow> string \<Rightarrow> cint \<Rightarrow> cint \<Rightarrow> bool" where
  "matches_unregistered r name clsfile_len clsfile_crc32 =
     (rec_name r = name \<and>
      (case rec_fingerprint r of
         None \<Rightarrow> False
       | Some (len, crc) \<Rightarrow> len = clsfile_len \<and> crc = clsfile_crc32))"

text \<open>
  Modelled from the spec: \<^verbatim>\<open>lookup_from_stream\<close>, declared here and defined out of
  line. "UNREGISTERED loaders: search \<^verbatim>\<open>_unregistered_dictionary\<close> for an entry that
  matches the (name, clsfile_len, clsfile_crc32)." The class file stream enters through
  the two numbers the match reads from it, its byte length and its checksum; the
  dictionary is the sequence of its records, searched in order.
\<close>

fun lookup_from_stream ::
  "ArchivedClassRecord list \<Rightarrow> string \<Rightarrow> cint \<Rightarrow> cint \<Rightarrow> ArchivedClassRecord option" where
  "lookup_from_stream [] name clsfile_len clsfile_crc32 = None"
| "lookup_from_stream (r # rs) name clsfile_len clsfile_crc32 =
     (if matches_unregistered r name clsfile_len clsfile_crc32 then Some r
      else lookup_from_stream rs name clsfile_len clsfile_crc32)"

text \<open>
  Modelled from the spec: \<^verbatim>\<open>find_builtin_class\<close>, declared here and defined out of
  line. "BUILTIN loaders: search \<^verbatim>\<open>_builtin_dictionary\<close>"; "key is name only".
\<close>

fun find_builtin_class :: "ArchivedClassRecord list \<Rightarrow> string \<Rightarrow> ArchivedClassRecord option" where
  "find_builtin_class [] name = None"
| "find_builtin_class (r # rs) name =
     (if rec_name r = name then Some r else find_builtin_class rs name)"

record Dictionaries =
  builtin_dictionary :: "ArchivedClassRecord list"
  unregistered_dictionary :: "ArchivedClassRecord list"

text \<open>
  Modelled from the spec: \<^verbatim>\<open>find(category, name, fingerprint?)\<close> of the runtime lookup
  engine, which picks the dictionary by category.
\<close>

fun find_archived ::
  "Dictionaries \<Rightarrow> StorageCategory \<Rightarrow> string \<Rightarrow> (cint \<times> cint) option
     \<Rightarrow> ArchivedClassRecord option" where
  "find_archived d BuiltinCategory name fp = find_builtin_class (builtin_dictionary d) name"
| "find_archived d UnregisteredCategory name None = None"
| "find_archived d UnregisteredCategory name (Some (len, crc)) =
     lookup_from_stream (unregistered_dictionary d) name len crc"

text \<open>
  Modelled from the spec: \<^verbatim>\<open>resolve_from_archive\<close>, the lookup followed by the
  visibility check. \<^verbatim>\<open>is_shared_class_visible_for_classloader\<close> is declared here and decided by
  the module and package tables; it is "consumed here as a single predicate call", the
  parameter \<open>is_visible\<close>. "An archived class that fails visibility is treated as a
  cache miss, not an error."
\<close>

definition resolve_from_archive ::
  "(ArchivedClassRecord \<Rightarrow> 'l \<Rightarrow> bool) \<Rightarrow> Dictionaries \<Rightarrow> StorageCategory \<Rightarrow> string
     \<Rightarrow> (cint \<times> cint) option \<Rightarrow> 'l \<Rightarrow> ArchivedClassRecord option" where
  "resolve_from_archive is_visible d category name fp loader =
     (case find_archived d category name fp of
        None \<Rightarrow> None
      | Some r \<Rightarrow> if is_visible r loader then Some r else None)"

text \<open>
  Modelled from the spec: the class-loading caller (\<^verbatim>\<open>find_or_load_shared_class\<close> and
  its kin are declared here). It takes the archived class when the lookup returns one;
  on a miss it "falls back to ordinary (non-archived) class loading for that name", the
  collaborator's \<^verbatim>\<open>parse_and_link\<close> on the class bytes. The caller sees "archived
  result available" or "not available", never an error.
\<close>

datatype 'm loaded_class = FromArchive ArchivedClassRecord | FromParsing 'm

definition load_class ::
  "(ArchivedClassRecord \<Rightarrow> 'l \<Rightarrow> bool) \<Rightarrow> ('b \<Rightarrow> 'm) \<Rightarrow> Dictionaries \<Rightarrow> StorageCategory
     \<Rightarrow> string \<Rightarrow> (cint \<times> cint) option \<Rightarrow> 'l \<Rightarrow> 'b \<Rightarrow> 'm loaded_class" where
  "load_class is_visible parse_and_link d category name fp loader bytes =
     (case resolve_from_archive is_visible d category name fp loader of
        None \<Rightarrow> FromParsing (parse_and_link bytes)
      | Some r \<Rightarrow> FromArchive r)"

subsection \<open>Example data\<close>

text \<open>
  The two classes of the specification's end-to-end example: \<open>A\<close>, builtin, and \<open>B\<close>,
  unregistered with fingerprint \<open>(120, 0xABCD1234)\<close>; \<open>B\<close> carries one recorded
  constraint. A loader is as simple as the examples need: the list of class names it
  may see.
\<close>

definition class_A :: ArchivedClassRecord where
  "class_A = \<lparr>rec_name = ''A'', rec_category = BuiltinCategory,
     rec_fingerprint = None, rec_supertypes = [], rec_origin = 0,
     rec_exclusion = None, rec_constraints = []\<rparr>"

definition class_B :: ArchivedClassRecord where
  "class_B = \<lparr>rec_name = ''B'', rec_category = UnregisteredCategory,
     rec_fingerprint = Some (120, 0xABCD1234), rec_supertypes = [0], rec_origin = 1,
     rec_exclusion = None,
     rec_constraints = [\<lparr>vc_name = ''A'', vc_from_name = ''B'',
       vc_from_field_is_protected = False, vc_from_is_array = False,
       vc_from_is_object = False\<rparr>]\<rparr>"

definition example_dictionaries :: Dictionaries where
  "example_dictionaries =
     \<lparr>builtin_dictionary = [class_A], unregistered_dictionary = [class_B]\<rparr>"

definition example_is_visible :: "ArchivedClassRecord \<Rightarrow> string list \<Rightarrow> bool" where
  "example_is_visible r loader = (rec_name r \<in> set loader)"

text \<open>
  Two loaders: loader \<open>0\<close> owns a table with the package \<open>java/lang\<close>, loader \<open>1\<close>
  has no package table.
\<close>

definition example_packages :: "nat \<Rightarrow> (string, nat) PackageEntryTable option" where
  "example_packages ld = (if ld = 0 then Some [(''java/lang'', 7)] else None)"

section \<open>Properties\<close>

subsection \<open>Category test\<close>

lemma sint_UNREGISTERED_INDEX: "sint UNREGISTERED_INDEX = - 9999"
  by (simp add: UNREGISTERED_INDEX_def)

text \<open>
  C1, as stated, fails: \<^verbatim>\<open>is_builtin\<close> compares against the sentinel, so a class whose
  index is \<open>-1\<close> (negative, and not the sentinel) is answered \<open>true\<close> although its
  index is not \<open>\<ge> 0\<close>.
\<close>

theorem is_builtin_negative_index_counterexample:
  "is_builtin \<lparr>shared_classpath_index = - 1, klass_rest = ()\<rparr>
   \<and> \<not> 0 \<le> sint (shared_classpath_index \<lparr>shared_classpath_index = - 1, klass_rest = ()\<rparr>)"
  by (simp add: is_builtin_def UNREGISTERED_INDEX_def)

text \<open>
  C1, amended: \<^verbatim>\<open>is_builtin(k)\<close> is true exactly when the shared classpath index of
  \<open>k\<close> differs from \<^verbatim>\<open>UNREGISTERED_INDEX\<close> (\<open>-9999\<close>). Every class with a non-negative
  index is builtin, the class with the sentinel index is not, and on the two index ranges
  the header names for archived classes (non-negative, or the sentinel) the answer is
  true exactly when the index is \<open>\<ge> 0\<close>.
\<close>

theorem is_builtin_iff_not_unregistered:
  "(is_builtin k \<longleftrightarrow> sint (shared_classpath_index k) \<noteq> - 9999)
   \<and> (0 \<le> sint (shared_classpath_index k) \<longrightarrow> is_builtin k)
   \<and> (shared_classpath_index k = UNREGISTERED_INDEX \<longrightarrow> \<not> is_builtin k)
   \<and> (0 \<le> sint (shared_classpath_index k) \<or> shared_classpath_index k = UNREGISTERED_INDEX
        \<longrightarrow> (is_builtin k \<longleftrightarrow> 0 \<le> sint (shared_classpath_index k)))"
proof -
  have eq: "(shared_classpath_index k = UNREGISTERED_INDEX)
            = (sint (shared_classpath_index k) = - 9999)"
    using sint_UNREGISTERED_INDEX
      word_eq_iff_signed [where ?'a = int, of "shared_classpath_index k" UNREGISTERED_INDEX]
    by simp
  show ?thesis
    unfolding is_builtin_def eq by auto
qed

theorem is_builtin_iff_not_unregistered_witness:
  "is_builtin \<lparr>shared_classpath_index = 3, klass_rest = ()\<rparr>
   \<and> \<not> is_builtin \<lparr>shared_classpath_index = - 9999, klass_rest = ()\<rparr>"
  using is_builtin_iff_not_unregistered [of "\<lparr>shared_classpath_index = 3, klass_rest = ()\<rparr>"]
    is_builtin_iff_not_unregistered [of "\<lparr>shared_classpath_index = - 9999, klass_rest = ()\<rparr>"]
  by (simp add: UNREGISTERED_INDEX_def)

subsection \<open>Reentrancy guard\<close>

text \<open>
  C8: the guard is one flag. Constructing a mark on a clear flag sets it, so
  \<^verbatim>\<open>no_class_loading_should_happen()\<close> is true while that mark is live; constructing a
  mark while the flag is set (a second, nested mark) fails the assertion, whatever
  follows; destroying a mark clears the flag whatever its value was, so after the
  destruction the flag is false.
\<close>

theorem NoClassLoadingMark_guard:
  "NoClassLoadingMark_enter False = Inr True
   \<and> NoClassLoadingMark_enter True = Inl (AssertionFailed ''must not be nested'')
   \<and> NoClassLoadingMark_leave flag = False
   \<and> run_marks False [Construct] = Inr True \<and> no_class_loading_should_happen True
   \<and> run_marks False (Construct # Construct # es) = Inl (AssertionFailed ''must not be nested'')
   \<and> run_marks False [Construct, Destroy] = Inr False
   \<and> \<not> no_class_loading_should_happen False
   \<and> run_marks flag [Destroy] = Inr False"
  by (simp add: NoClassLoadingMark_enter_def NoClassLoadingMark_leave_def
      no_class_loading_should_happen_def)

subsection \<open>Package lookup\<close>

lemma table_entry_None: "table_entry table pkg = None \<longleftrightarrow> pkg \<notin> fst ` set table"
proof (induction table)
  case Nil
  then show ?case by simp
next
  case (Cons p table)
  obtain name entry where p: "p = (name, entry)" by (cases p)
  show ?case
    using Cons.IH by (cases "name = pkg") (simp_all add: p)
qed

lemma table_entry_Some: "table_entry table pkg = Some e \<Longrightarrow> (pkg, e) \<in> set table"
  by (induction table) (auto split: if_splits)

text \<open>
  C10, as stated, fails: \<^verbatim>\<open>get_package_entry\<close> is not total. For loader data that is
  not \<^verbatim>\<open>NULL\<close> but whose \<^verbatim>\<open>packages()\<close> is \<^verbatim>\<open>NULL\<close>, no lookup result is returned:
  the table pointer is dereferenced unchecked.
\<close>

theorem get_package_entry_null_table_counterexample:
  "get_package_entry example_packages ''java/lang'' (Some 1) = Inl NullPointerDereference"
  by (simp add: get_package_entry_def example_packages_def)

text \<open>
  C10, amended: for \<^verbatim>\<open>NULL\<close> loader data \<^verbatim>\<open>get_package_entry\<close> returns \<^verbatim>\<open>NULL\<close> and
  leaves every package table as it was, whatever the tables are, \<^verbatim>\<open>NULL\<close> tables
  included: nothing is dereferenced or consulted. For loader data that is not
  \<^verbatim>\<open>NULL\<close> and has a package table, it returns the result of \<^verbatim>\<open>lookup_only\<close> on that
  table, which is an entry stored there under the package, or \<^verbatim>\<open>NULL\<close> exactly when
  the table has no entry for the package; after the call every loader's table,
  the one searched too, is what it was before: nothing is inserted or modified.
\<close>

theorem get_package_entry_lookup:
  "get_package_entry packages pkg None = Inr (None, packages)
   \<and> (packages ld = Some table \<longrightarrow>
        get_package_entry packages pkg (Some ld) = Inr (fst (lookup_only table pkg), packages)
        \<and> (fst (lookup_only table pkg) = None \<longleftrightarrow> pkg \<notin> fst ` set table)
        \<and> (\<forall>e. fst (lookup_only table pkg) = Some e \<longrightarrow> (pkg, e) \<in> set table))"
proof -
  have null_loader: "get_package_entry packages pkg None = Inr (None, packages)"
    by (simp add: get_package_entry_def)
  have with_table:
    "get_package_entry packages pkg (Some ld) = Inr (fst (lookup_only table pkg), packages)"
    if "packages ld = Some table"
  proof -
    from that have "packages(ld := Some table) = packages"
      by auto
    with that show ?thesis
      by (simp add: get_package_entry_def lookup_only_def)
  qed
  have miss: "fst (lookup_only table pkg) = None \<longleftrightarrow> pkg \<notin> fst ` set table"
    by (simp add: lookup_only_def table_entry_None)
  have hit: "\<forall>e. fst (lookup_only table pkg) = Some e \<longrightarrow> (pkg, e) \<in> set table"
    by (simp add: lookup_only_def table_entry_Some)
  from null_loader with_table miss hit show ?thesis
    by blast
qed

theorem get_package_entry_lookup_witness:
  "get_package_entry example_packages ''java/lang'' (Some 0) = Inr (Some 7, example_packages)
   \<and> get_package_entry example_packages ''java/util'' (Some 0) = Inr (None, example_packages)
   \<and> get_package_entry example_packages ''java/lang'' None = Inr (None, example_packages)"
proof -
  have table: "example_packages 0 = Some [(''java/lang'', 7)]"
    by (simp add: example_packages_def)
  show ?thesis
    using get_package_entry_lookup [of example_packages "''java/lang''" 0 "[(''java/lang'', 7)]"]
      get_package_entry_lookup [of example_packages "''java/util''" 0 "[(''java/lang'', 7)]"]
      table
    by (simp add: lookup_only_def)
qed

subsection \<open>Constraint recording in a build without class data sharing\<close>

text \<open>
  C9: in a build without class data sharing, \<^verbatim>\<open>add_verification_constraint\<close> returns
  false for every class, pair of names and flags, and the recorded state after the call
  is the state before it.
\<close>

theorem add_verification_constraint_not_cds:
  "\<not> INCLUDE_CDS \<Longrightarrow>
   add_verification_constraint INCLUDE_CDS cds_definition st k name from_name
       from_field_is_protected from_is_array from_is_object = (False, st)"
  by (simp add: add_verification_constraint_def)

theorem add_verification_constraint_not_cds_witness:
  "add_verification_constraint False (\<lambda>st k name from_name p a obj. (True, (k, name, from_name) # st))
       [] ''Bar'' ''java/lang/Object'' ''Foo'' False False True = (False, [])"
  using add_verification_constraint_not_cds
    [of False "\<lambda>st k name from_name p a obj. (True, (k, name, from_name) # st)"
        "[]" "''Bar''" "''java/lang/Object''" "''Foo''" False False True]
  by simp

subsection \<open>Write-once publication\<close>

lemma atomic_set_array_index_keeps:
  "atomic_set_array_index array index obj = Inr array' \<Longrightarrow> array ! m = Some x
   \<Longrightarrow> array' ! m = Some x"
  by (cases "m = nat (sint index)")
     (auto simp: atomic_set_array_index_def atomic_compare_exchange_oop_def Let_def
           split: if_splits)

lemma atomic_set_array_index_length:
  "atomic_set_array_index array index obj = Inr array' \<Longrightarrow> length array' = length array"
  by (auto simp: atomic_set_array_index_def atomic_compare_exchange_oop_def Let_def
           split: if_splits)

lemma atomic_set_array_index_in_range:
  "0 \<le> sint index \<Longrightarrow> sint index < int (length array) \<Longrightarrow>
   atomic_set_array_index array index obj
     = Inr (if array ! nat (sint index) = None then array[nat (sint index) := obj] else array)"
  by (simp add: atomic_set_array_index_def atomic_compare_exchange_oop_def Let_def)

lemma publish_keeps:
  "publish s p = Inr s' \<Longrightarrow> slot kind index s = Some x \<Longrightarrow> slot kind index s' = Some x"
proof -
  obtain k i v where p: "p = (k, i, v)" by (cases p)
  assume "publish s p = Inr s'" and "slot kind index s = Some x"
  then show ?thesis
    unfolding p
    by (cases k; cases kind)
       (auto simp: slot_def atomic_set_shared_protection_domain_def
          atomic_set_shared_jar_url_def atomic_set_shared_jar_manifest_def
          split: sum.splits dest: atomic_set_array_index_keeps)
qed

lemma publish_length:
  "publish s p = Inr s' \<Longrightarrow> length (array_of kind s') = length (array_of kind s)"
proof -
  obtain k i v where p: "p = (k, i, v)" by (cases p)
  assume "publish s p = Inr s'"
  then show ?thesis
    unfolding p
    by (cases k; cases kind)
       (auto simp: atomic_set_shared_protection_domain_def
          atomic_set_shared_jar_url_def atomic_set_shared_jar_manifest_def
          split: sum.splits dest: atomic_set_array_index_length)
qed

lemma publish_in_bounds:
  "publish s p = Inr s' \<Longrightarrow> in_bounds s' q = in_bounds s q"
  by (simp add: in_bounds_def publish_length split: prod.splits)

lemma publish_slot:
  assumes "in_bounds s (kind, index, obj)"
  shows "\<exists>s'. publish s (kind, index, obj) = Inr s'
           \<and> slot kind index s' = (if slot kind index s = None then obj else slot kind index s)"
proof -
  from assms have lo: "0 \<le> sint index" and hi: "sint index < int (length (array_of kind s))"
    by (simp_all add: in_bounds_def)
  from lo hi have n: "nat (sint index) < length (array_of kind s)"
    by linarith
  show ?thesis
    using lo hi n
    by (cases kind)
       (simp_all add: slot_def atomic_set_shared_protection_domain_def
          atomic_set_shared_jar_url_def atomic_set_shared_jar_manifest_def
          atomic_set_array_index_in_range)
qed

lemma run_publications_total:
  "list_all (in_bounds s) ps \<Longrightarrow> \<exists>s'. run_publications s ps = Inr s'"
proof (induction ps arbitrary: s)
  case Nil
  then show ?case by simp
next
  case (Cons p ps)
  obtain kind index obj where p: "p = (kind, index, obj)" by (cases p)
  from Cons.prems have "in_bounds s (kind, index, obj)" by (simp add: p)
  then obtain s1 where s1: "publish s p = Inr s1"
    using publish_slot p by blast
  from Cons.prems have "list_all (in_bounds s1) ps"
    by (simp add: publish_in_bounds [OF s1] list_all_iff)
  from Cons.IH [OF this] show ?case by (simp add: s1)
qed

lemma run_publications_keeps:
  "run_publications s ps = Inr s' \<Longrightarrow> slot kind index s = Some x \<Longrightarrow> slot kind index s' = Some x"
proof (induction ps arbitrary: s)
  case Nil
  then show ?case by simp
next
  case (Cons p ps)
  then show ?case
    by (auto split: sum.splits dest: publish_keeps)
qed

text \<open>
  C5: every slot of the three arrays is write-once. A publication into a slot of the
  array stores its candidate exactly when the slot is empty (\<^verbatim>\<open>NULL\<close>) and otherwise
  leaves the slot as it was. Once the slot holds a value, it holds that same value after
  any further publications, by whichever caller, into whichever slot and with whichever
  candidate: every later read returns the first value published. In particular, when
  callers race on an empty slot, each with a candidate of its own computing, the
  candidate of the first exchange to take effect is what every caller reads afterwards.
  Publications inside the arrays' bounds never fail.
\<close>

theorem shared_metadata_write_once:
  assumes "in_bounds s (kind, index, obj)" and "list_all (in_bounds s) ps"
  shows "\<exists>s1 s2. publish s (kind, index, obj) = Inr s1
      \<and> slot kind index s1 = (if slot kind index s = None then obj else slot kind index s)
      \<and> run_publications s1 ps = Inr s2
      \<and> (slot kind index s1 \<noteq> None \<longrightarrow> slot kind index s2 = slot kind index s1)
      \<and> (slot kind index s = None \<and> obj \<noteq> None \<longrightarrow> slot kind index s2 = obj)"
proof -
  from publish_slot [OF assms(1)] obtain s1 where
    s1: "publish s (kind, index, obj) = Inr s1" and
    slot1: "slot kind index s1 = (if slot kind index s = None then obj else slot kind index s)"
    by blast
  from assms(2) have "list_all (in_bounds s1) ps"
    by (simp add: publish_in_bounds [OF s1] list_all_iff)
  then obtain s2 where s2: "run_publications s1 ps = Inr s2"
    using run_publications_total by blast
  have stable: "slot kind index s2 = slot kind index s1" if "slot kind index s1 \<noteq> None"
    using that run_publications_keeps [OF s2] by fastforce
  show ?thesis
    using s1 slot1 s2 stable by auto
qed

theorem shared_metadata_write_once_witness:
  "\<exists>s1 s2. publish \<lparr>shared_protection_domains = [None, None], shared_jar_urls = [None],
                    shared_jar_manifests = [None]\<rparr> (ProtectionDomain, 1, Some (10::nat)) = Inr s1
      \<and> slot ProtectionDomain 1 s1 = Some 10
      \<and> run_publications s1 [(ProtectionDomain, 1, Some 20), (JarUrl, 0, Some 30)] = Inr s2
      \<and> slot ProtectionDomain 1 s2 = Some 10"
proof -
  let ?s = "\<lparr>shared_protection_domains = [None, None], shared_jar_urls = [None],
             shared_jar_manifests = [None :: nat option]\<rparr>"
  have b: "in_bounds ?s (ProtectionDomain, 1, Some 10)"
    by (simp add: in_bounds_def)
  have bs: "list_all (in_bounds ?s) [(ProtectionDomain, 1, Some 20), (JarUrl, 0, Some 30)]"
    by (simp add: in_bounds_def)
  have e: "slot ProtectionDomain 1 ?s = None"
    by (simp add: slot_def)
  show ?thesis
    using shared_metadata_write_once [OF b bs] e by auto
qed

subsection \<open>Lookup in the unregistered dictionary\<close>

lemma lookup_from_stream_Some:
  "lookup_from_stream d n l c = Some r \<Longrightarrow> r \<in> set d \<and> matches_unregistered r n l c"
  by (induction d) (auto split: if_splits)

lemma lookup_from_stream_None:
  "lookup_from_stream d n l c = None \<longleftrightarrow> (\<forall>r\<in>set d. \<not> matches_unregistered r n l c)"
  by (induction d) auto

lemma matches_unregistered_iff:
  "matches_unregistered r n l c \<longleftrightarrow> rec_name r = n \<and> rec_fingerprint r = Some (l, c)"
  by (auto simp: matches_unregistered_def split: option.splits)

text \<open>
  C2: in the unregistered dictionary a stored record matches a query exactly when its
  name, its class-file length and its checksum all equal the query's. The lookup returns
  only a record of the dictionary that matches in all three, and returns one whenever
  such a record is stored. A query that differs from a stored record in the name, in
  the length or in the checksum does not return that record, and is a miss when that
  record is the only candidate.
\<close>

theorem unregistered_lookup_matches_all_three:
  "(lookup_from_stream d name len crc = Some r \<longrightarrow>
      r \<in> set d \<and> rec_name r = name \<and> rec_fingerprint r = Some (len, crc))
   \<and> (lookup_from_stream d name len crc \<noteq> None \<longleftrightarrow>
      (\<exists>r\<in>set d. rec_name r = name \<and> rec_fingerprint r = Some (len, crc)))
   \<and> (lookup_from_stream [r] name len crc = Some r \<longleftrightarrow>
      rec_name r = name \<and> rec_fingerprint r = Some (len, crc))
   \<and> (rec_fingerprint r = Some (len, crc) \<and> (name' \<noteq> rec_name r \<or> len' \<noteq> len \<or> crc' \<noteq> crc)
        \<longrightarrow> lookup_from_stream [r] name' len' crc' = None
          \<and> lookup_from_stream d name' len' crc' \<noteq> Some r)"
proof -
  have 1: "lookup_from_stream d name len crc = Some r \<longrightarrow>
      r \<in> set d \<and> rec_name r = name \<and> rec_fingerprint r = Some (len, crc)"
    using lookup_from_stream_Some [of d name len crc r] by (simp add: matches_unregistered_iff)
  have 2: "lookup_from_stream d name len crc \<noteq> None \<longleftrightarrow>
      (\<exists>r\<in>set d. rec_name r = name \<and> rec_fingerprint r = Some (len, crc))"
    by (simp add: lookup_from_stream_None matches_unregistered_iff)
  have 3: "lookup_from_stream [r] name len crc = Some r \<longleftrightarrow>
      rec_name r = name \<and> rec_fingerprint r = Some (len, crc)"
    by (simp add: matches_unregistered_iff)
  have 4: "lookup_from_stream [r] name' len' crc' = None
          \<and> lookup_from_stream d name' len' crc' \<noteq> Some r"
    if "rec_fingerprint r = Some (len, crc)"
      and "name' \<noteq> rec_name r \<or> len' \<noteq> len \<or> crc' \<noteq> crc"
  proof -
    from that have no: "\<not> matches_unregistered r name' len' crc'"
      by (auto simp: matches_unregistered_iff)
    then show ?thesis
      using lookup_from_stream_Some [of d name' len' crc' r] by auto
  qed
  from 1 2 3 4 show ?thesis by blast
qed

theorem unregistered_lookup_matches_all_three_witness:
  "lookup_from_stream [class_B] ''B'' 120 0xABCD1234 = Some class_B
   \<and> lookup_from_stream [class_B] ''B'' 121 0xABCD1234 = None
   \<and> lookup_from_stream [class_B] ''B'' 120 0xABCD1235 = None
   \<and> lookup_from_stream [class_B] ''C'' 120 0xABCD1234 = None"
  using unregistered_lookup_matches_all_three [of "[class_B]" "''B''" 120 "0xABCD1234" class_B "''B''" 121 "0xABCD1234"]
    unregistered_lookup_matches_all_three [of "[class_B]" "''B''" 120 "0xABCD1234" class_B "''B''" 120 "0xABCD1235"]
    unregistered_lookup_matches_all_three [of "[class_B]" "''B''" 120 "0xABCD1234" class_B "''C''" 120 "0xABCD1234"]
  by (simp add: class_B_def)

subsection \<open>Visibility\<close>

text \<open>
  C7: when the dictionaries hold a record for the query and the visibility check
  answers false for the requesting loader, the lookup returns no record, and the
  caller's load is the ordinary one, parsing the class bytes; no error is raised.
\<close>

theorem invisible_class_is_cache_miss:
  assumes "find_archived d category name fp = Some r" and "\<not> is_visible r loader"
  shows "resolve_from_archive is_visible d category name fp loader = None
     \<and> load_class is_visible parse_and_link d category name fp loader bytes
         = FromParsing (parse_and_link bytes)"
  using assms by (simp add: resolve_from_archive_def load_class_def)

theorem invisible_class_is_cache_miss_witness:
  "resolve_from_archive example_is_visible example_dictionaries BuiltinCategory ''A'' None
       [''B''] = None
   \<and> load_class example_is_visible length example_dictionaries
        BuiltinCategory ''A'' None [''B''] ''bytes'' = FromParsing 5"
proof -
  have found: "find_archived example_dictionaries BuiltinCategory ''A'' None = Some class_A"
    by (simp add: example_dictionaries_def class_A_def)
  have hidden: "\<not> example_is_visible class_A [''B'']"
    by (simp add: example_is_visible_def class_A_def)
  show ?thesis
    using invisible_class_is_cache_miss
      [where is_visible = example_is_visible and parse_and_link = length
         and bytes = "''bytes''", OF found hidden]
    by simp
qed

end
